theory Spec2Isabelle
  imports Complex_Main "HOL-Library.Word" "HOL-Library.Sublist"
begin

section \<open>The UPF synchronisation extension\<close>

text \<open>
  A shallow embedding of \<^verbatim>\<open>sync_algorithm_interface.h\<close>,
  \<^verbatim>\<open>sync_algorithm_bridge.c\<close> and \<^verbatim>\<open>routing_table_manager.c\<close>.

  Conventions of the embedding:
  \<^item> a C string argument \<^verbatim>\<open>const char *\<close> is a \<open>string option\<close>: \<open>None\<close> is the null
    pointer, \<open>Some cs\<close> the characters before the terminating NUL (so \<open>Some []\<close> is the
    empty string, which is not a null pointer);
  \<^item> \<^verbatim>\<open>uint16_t\<close>, \<^verbatim>\<open>uint32_t\<close>, \<^verbatim>\<open>uint64_t\<close> are words of that width, so \<^verbatim>\<open>++\<close> wraps;
  \<^item> a \<^verbatim>\<open>double\<close> that the code only stores, copies or prints is a \<open>real\<close>; no function
    below computes with one;
  \<^item> \<^verbatim>\<open>time(NULL)\<close> is a parameter \<open>now\<close> of the function that calls it, \<^verbatim>\<open>time_t\<close> an \<open>int\<close>;
  \<^item> the file-level variables are fields of an explicit state that each function takes
    and returns; the calls are taken one at a time, so the mutex operations do nothing
    and are left out, as is the text written by \<^verbatim>\<open>printf\<close>.
\<close>

subsection \<open>Types of the interface header\<close>

datatype sync_result_t =
    SYNC_SUCCESS
  | SYNC_ERROR_INVALID_PARAM
  | SYNC_ERROR_UE_NOT_FOUND
  | SYNC_ERROR_SATELLITE_NOT_FOUND
  | SYNC_ERROR_HANDOVER_IN_PROGRESS
  | SYNC_ERROR_ROUTING_UPDATE_FAILED
  | SYNC_ERROR_MEMORY_ALLOCATION
  | SYNC_ERROR_TIMEOUT

fun sync_result_code :: "sync_result_t \<Rightarrow> int" where
  "sync_result_code SYNC_SUCCESS = 0"
| "sync_result_code SYNC_ERROR_INVALID_PARAM = -1"
| "sync_result_code SYNC_ERROR_UE_NOT_FOUND = -2"
| "sync_result_code SYNC_ERROR_SATELLITE_NOT_FOUND = -3"
| "sync_result_code SYNC_ERROR_HANDOVER_IN_PROGRESS = -4"
| "sync_result_code SYNC_ERROR_ROUTING_UPDATE_FAILED = -5"
| "sync_result_code SYNC_ERROR_MEMORY_ALLOCATION = -6"
| "sync_result_code SYNC_ERROR_TIMEOUT = -7"

text \<open>
  \<^verbatim>\<open>ue_context_t\<close>. Its first field is \<^verbatim>\<open>ue_id\<close> in the header; the name is kept for the
  routing entry below, and the fields that two structs share carry a prefix here.
\<close>

record ue_context_t =
  ctx_ue_id :: string
  current_satellite_id :: string
  target_satellite_id :: string
  ipv4_addr :: "32 word"
  predicted_handover_time :: real
  handover_in_progress :: bool
  access_strategy :: "8 word"

record handover_event_t =
  ev_ue_id :: string
  source_satellite :: string
  target_satellite :: string
  trigger_time :: real
  completion_time :: real
  result :: sync_result_t
  error_message :: string

record sync_algorithm_status_t =
  algorithm_running :: bool
  total_ue_count :: "32 word"
  active_handover_count :: "32 word"
  last_update_time :: real
  total_handover_count :: "64 word"
  successful_handover_count :: "64 word"
  average_handover_latency :: real

subsection \<open>The bridge: \<^verbatim>\<open>sync_algorithm_bridge.c\<close>\<close>

text \<open>The two file-level variables \<^verbatim>\<open>g_initialized\<close> and \<^verbatim>\<open>g_status\<close>.\<close>

record bridge_state =
  g_initialized :: bool
  g_status :: sync_algorithm_status_t

text \<open>What \<^verbatim>\<open>memset(&g_status, 0, sizeof(g_status))\<close> and the initialiser \<^verbatim>\<open>{0}\<close> give.\<close>

definition status_zero :: sync_algorithm_status_t where
  "status_zero =
     \<lparr>algorithm_running = False, total_ue_count = 0, active_handover_count = 0,
      last_update_time = 0, total_handover_count = 0, successful_handover_count = 0,
      average_handover_latency = 0\<rparr>"

text \<open>The state of the module when the process starts.\<close>

definition bridge_start :: bridge_state where
  "bridge_start = \<lparr>g_initialized = False, g_status = status_zero\<rparr>"

definition sync_algorithm_init :: "int \<Rightarrow> bridge_state \<Rightarrow> sync_result_t \<times> bridge_state" where
  "sync_algorithm_init now s =
     (if g_initialized s then (SYNC_SUCCESS, s)
      else (SYNC_SUCCESS,
            s\<lparr>g_status := status_zero\<lparr>algorithm_running := False,
                                       last_update_time := of_int now\<rparr>,
              g_initialized := True\<rparr>))"

definition sync_algorithm_cleanup :: "bridge_state \<Rightarrow> bridge_state" where
  "sync_algorithm_cleanup s =
     s\<lparr>g_initialized := False, g_status := (g_status s)\<lparr>algorithm_running := False\<rparr>\<rparr>"

definition sync_algorithm_register_ue ::
  "ue_context_t option \<Rightarrow> bridge_state \<Rightarrow> sync_result_t \<times> bridge_state" where
  "sync_algorithm_register_ue ue_context s =
     (if ue_context = None \<or> \<not> g_initialized s then (SYNC_ERROR_INVALID_PARAM, s)
      else (SYNC_SUCCESS,
            s\<lparr>g_status := (g_status s)\<lparr>total_ue_count := total_ue_count (g_status s) + 1\<rparr>\<rparr>))"

definition sync_algorithm_unregister_ue ::
  "string option \<Rightarrow> bridge_state \<Rightarrow> sync_result_t \<times> bridge_state" where
  "sync_algorithm_unregister_ue ue_id s =
     (if ue_id = None \<or> \<not> g_initialized s then (SYNC_ERROR_INVALID_PARAM, s)
      else (SYNC_SUCCESS,
            if total_ue_count (g_status s) > 0
            then s\<lparr>g_status := (g_status s)\<lparr>total_ue_count := total_ue_count (g_status s) - 1\<rparr>\<rparr>
            else s))"

definition sync_algorithm_trigger_handover ::
  "string option \<Rightarrow> string option \<Rightarrow> real \<Rightarrow> int \<Rightarrow> bridge_state
     \<Rightarrow> sync_result_t \<times> bridge_state" where
  "sync_algorithm_trigger_handover ue_id target_sat predicted_time now s =
     (if ue_id = None \<or> target_sat = None \<or> \<not> g_initialized s
      then (SYNC_ERROR_INVALID_PARAM, s)
      else (SYNC_SUCCESS,
            s\<lparr>g_status := (g_status s)
                 \<lparr>total_handover_count := total_handover_count (g_status s) + 1,
                  successful_handover_count := successful_handover_count (g_status s) + 1,
                  last_update_time := of_int now\<rparr>\<rparr>))"

text \<open>
  \<^verbatim>\<open>sync_algorithm_get_status\<close> writes through the pointer \<^verbatim>\<open>status\<close>: the argument is the
  caller's buffer (\<open>None\<close> for a null pointer) and the second component of the result is
  the buffer after the call.
\<close>

definition sync_algorithm_get_status ::
  "sync_algorithm_status_t option \<Rightarrow> bridge_state
     \<Rightarrow> sync_result_t \<times> sync_algorithm_status_t option \<times> bridge_state" where
  "sync_algorithm_get_status status s =
     (if status = None \<or> \<not> g_initialized s then (SYNC_ERROR_INVALID_PARAM, status, s)
      else (SYNC_SUCCESS, Some (g_status s), s))"

definition sync_algorithm_update_ue_position ::
  "string option \<Rightarrow> real \<Rightarrow> real \<Rightarrow> real \<Rightarrow> bridge_state \<Rightarrow> sync_result_t \<times> bridge_state" where
  "sync_algorithm_update_ue_position ue_id latitude longitude altitude s =
     (if ue_id = None \<or> \<not> g_initialized s then (SYNC_ERROR_INVALID_PARAM, s)
      else (SYNC_SUCCESS, s))"

definition sync_algorithm_start_periodic_update ::
  "bridge_state \<Rightarrow> sync_result_t \<times> bridge_state" where
  "sync_algorithm_start_periodic_update s =
     (if \<not> g_initialized s then (SYNC_ERROR_INVALID_PARAM, s)
      else (SYNC_SUCCESS, s\<lparr>g_status := (g_status s)\<lparr>algorithm_running := True\<rparr>\<rparr>))"

definition sync_algorithm_stop_periodic_update ::
  "bridge_state \<Rightarrow> sync_result_t \<times> bridge_state" where
  "sync_algorithm_stop_periodic_update s =
     (if \<not> g_initialized s then (SYNC_ERROR_INVALID_PARAM, s)
      else (SYNC_SUCCESS, s\<lparr>g_status := (g_status s)\<lparr>algorithm_running := False\<rparr>\<rparr>))"

definition sync_algorithm_set_parameters ::
  "real \<Rightarrow> real \<Rightarrow> bridge_state \<Rightarrow> sync_result_t \<times> bridge_state" where
  "sync_algorithm_set_parameters delta_t binary_search_precision s = (SYNC_SUCCESS, s)"

text \<open>
  \<^verbatim>\<open>sync_algorithm_get_recent_handover_events\<close>: \<open>events\<close> is the caller's array, which the
  function does not write, and \<open>actual_count\<close> the caller's counter (\<open>None\<close> for a null
  pointer). The result holds the array and the counter after the call; the events
  handed back are the first \<open>actual_count\<close> elements of the array.
\<close>

definition sync_algorithm_get_recent_handover_events ::
  "handover_event_t list \<Rightarrow> 32 word \<Rightarrow> 32 word option \<Rightarrow> bridge_state
     \<Rightarrow> sync_result_t \<times> handover_event_t list \<times> 32 word option \<times> bridge_state" where
  "sync_algorithm_get_recent_handover_events events max_events actual_count s =
     (SYNC_SUCCESS, events,
      (case actual_count of None \<Rightarrow> None | Some c \<Rightarrow> Some 0), s)"

definition returned_events :: "handover_event_t list \<Rightarrow> 32 word option \<Rightarrow> handover_event_t list" where
  "returned_events events actual_count =
     (case actual_count of None \<Rightarrow> [] | Some c \<Rightarrow> take (unat c) events)"

subsection \<open>Sequences of register and unregister calls\<close>

datatype ue_call = Register "ue_context_t option" | Unregister "string option"

fun ue_call_step :: "ue_call \<Rightarrow> bridge_state \<Rightarrow> sync_result_t \<times> bridge_state" where
  "ue_call_step (Register ue_context) s = sync_algorithm_register_ue ue_context s"
| "ue_call_step (Unregister ue_id) s = sync_algorithm_unregister_ue ue_id s"

text \<open>The state after a sequence of calls, and the calls with the result each returned.\<close>

fun run_ue_calls :: "ue_call list \<Rightarrow> bridge_state \<Rightarrow> bridge_state" where
  "run_ue_calls [] s = s"
| "run_ue_calls (c # cs) s = run_ue_calls cs (snd (ue_call_step c s))"

fun ue_call_trace :: "ue_call list \<Rightarrow> bridge_state \<Rightarrow> (ue_call \<times> sync_result_t) list" where
  "ue_call_trace [] s = []"
| "ue_call_trace (c # cs) s =
     (c, fst (ue_call_step c s)) # ue_call_trace cs (snd (ue_call_step c s))"

fun is_register_ok :: "ue_call \<times> sync_result_t \<Rightarrow> bool" where
  "is_register_ok (Register ue_context, r) = (r = SYNC_SUCCESS)"
| "is_register_ok (Unregister ue_id, r) = False"

fun is_unregister_ok :: "ue_call \<times> sync_result_t \<Rightarrow> bool" where
  "is_unregister_ok (Register ue_context, r) = False"
| "is_unregister_ok (Unregister ue_id, r) = (r = SYNC_SUCCESS)"

definition registers_ok :: "(ue_call \<times> sync_result_t) list \<Rightarrow> nat" where
  "registers_ok tr = length (filter is_register_ok tr)"

definition unregisters_ok :: "(ue_call \<times> sync_result_t) list \<Rightarrow> nat" where
  "unregisters_ok tr = length (filter is_unregister_ok tr)"

text \<open>The subscriber count that \<^verbatim>\<open>sync_algorithm_get_status\<close> copies out, as a number.\<close>

definition ue_count :: "bridge_state \<Rightarrow> nat" where
  "ue_count s = unat (total_ue_count (g_status s))"

subsection \<open>The routing table: \<^verbatim>\<open>routing_table_manager.c\<close>\<close>

text \<open>
  A node of the linked list, without its \<^verbatim>\<open>next\<close> pointer: the table \<^verbatim>\<open>g_routing_table\<close>
  is the list of the nodes from the head on. \<^verbatim>\<open>ue_id\<close> is a buffer of 64 bytes, so it
  holds at most 63 characters before its NUL.
\<close>

record routing_entry_t =
  ue_id :: string
  gnb_ip :: "32 word"
  gnb_port :: "16 word"
  last_update :: int

type_synonym routing_table = "routing_entry_t list"

text \<open>
  The \<^verbatim>\<open>while (entry)\<close> loop of \<^verbatim>\<open>update_routing_entry\<close>: the first node whose stored
  identifier compares equal (\<^verbatim>\<open>strcmp\<close>) to the argument gets the new endpoint and time,
  and the function returns; \<open>None\<close> when the loop reaches the end of the list.
\<close>

fun update_matching_entry ::
  "string \<Rightarrow> 32 word \<Rightarrow> 16 word \<Rightarrow> int \<Rightarrow> routing_table \<Rightarrow> routing_table option" where
  "update_matching_entry uid ip port now [] = None"
| "update_matching_entry uid ip port now (entry # rest) =
     (if ue_id entry = uid
      then Some (entry\<lparr>gnb_ip := ip, gnb_port := port, last_update := now\<rparr> # rest)
      else map_option ((#) entry) (update_matching_entry uid ip port now rest))"

text \<open>
  \<^verbatim>\<open>update_routing_entry\<close>. \<open>malloc_ok\<close> says whether \<^verbatim>\<open>malloc\<close> returns a node. The new
  node gets \<^verbatim>\<open>strncpy(entry->ue_id, ue_id, 63)\<close> and a NUL at index 63, that is, the
  first 63 characters of the argument, and becomes the head of the list.
\<close>

definition update_routing_entry ::
  "string option \<Rightarrow> 32 word \<Rightarrow> 16 word \<Rightarrow> int \<Rightarrow> bool \<Rightarrow> routing_table
     \<Rightarrow> sync_result_t \<times> routing_table" where
  "update_routing_entry ue_id_arg ip port now malloc_ok tbl =
     (case ue_id_arg of
        None \<Rightarrow> (SYNC_ERROR_INVALID_PARAM, tbl)
      | Some uid \<Rightarrow>
         (case update_matching_entry uid ip port now tbl of
            Some tbl' \<Rightarrow> (SYNC_SUCCESS, tbl')
          | None \<Rightarrow>
             if \<not> malloc_ok then (SYNC_ERROR_MEMORY_ALLOCATION, tbl)
             else (SYNC_SUCCESS,
                   \<lparr>ue_id = take 63 uid, gnb_ip = ip, gnb_port = port, last_update = now\<rparr>
                   # tbl)))"

definition cleanup_routing_table :: "routing_table \<Rightarrow> routing_table" where
  "cleanup_routing_table tbl = []"

text \<open>
  The effect of the loop written without recursion, for comparison with
  \<open>update_matching_entry\<close>: the nodes before the first one stored under \<open>uid\<close>, that node
  with the new endpoint and time, and the nodes after it. Used only where some node is
  stored under \<open>uid\<close>.
\<close>

definition first_match_updated ::
  "string \<Rightarrow> 32 word \<Rightarrow> 16 word \<Rightarrow> int \<Rightarrow> routing_table \<Rightarrow> routing_table" where
  "first_match_updated uid ip port now tbl =
     takeWhile (\<lambda>e. ue_id e \<noteq> uid) tbl
     @ (hd (dropWhile (\<lambda>e. ue_id e \<noteq> uid) tbl))
         \<lparr>gnb_ip := ip, gnb_port := port, last_update := now\<rparr>
     # tl (dropWhile (\<lambda>e. ue_id e \<noteq> uid) tbl)"

text \<open>
  A sequence of calls of \<open>update_routing_entry\<close>, each with its arguments, the time at
  which it runs and whether its allocation succeeds.
\<close>

type_synonym upsert_call = "string option \<times> 32 word \<times> 16 word \<times> int \<times> bool"

fun run_upserts :: "upsert_call list \<Rightarrow> routing_table \<Rightarrow> routing_table" where
  "run_upserts [] tbl = tbl"
| "run_upserts ((ue_id_arg, ip, port, now, malloc_ok) # calls) tbl =
     run_upserts calls (snd (update_routing_entry ue_id_arg ip port now malloc_ok tbl))"

definition fits_buffer :: "string option \<Rightarrow> bool" where
  "fits_buffer ue_id_arg = (case ue_id_arg of None \<Rightarrow> True | Some uid \<Rightarrow> length uid \<le> 63)"

subsection \<open>Concrete inputs used by the examples\<close>

definition ue1_context :: ue_context_t where
  "ue1_context =
     \<lparr>ctx_ue_id = ''ue-1'', current_satellite_id = ''sat-A'', target_satellite_id = [],
      ipv4_addr = 0, predicted_handover_time = 0, handover_in_progress = False,
      access_strategy = 0\<rparr>"

text \<open>An engine initialised at time 1000 on which nothing else has been called.\<close>

definition fresh_engine :: bridge_state where
  "fresh_engine = snd (sync_algorithm_init 1000 bridge_start)"

text \<open>An initialised engine that has counted two subscribers and three handovers.\<close>

definition busy_engine :: bridge_state where
  "busy_engine =
     \<lparr>g_initialized = True,
      g_status = \<lparr>algorithm_running = True, total_ue_count = 2, active_handover_count = 0,
                  last_update_time = 1005, total_handover_count = 3,
                  successful_handover_count = 3, average_handover_latency = 0\<rparr>\<rparr>"

text \<open>
  The engine after the scenario: initialised, \<open>ue-1\<close> registered on \<open>sat-A\<close>, its
  handover to \<open>sat-B\<close> triggered with predicted time 100.
\<close>

definition scenario_engine :: bridge_state where
  "scenario_engine =
     snd (sync_algorithm_trigger_handover (Some ''ue-1'') (Some ''sat-B'') 100 1002
       (snd (sync_algorithm_register_ue (Some ue1_context)
         (snd (sync_algorithm_init 1000 bridge_start)))))"

text \<open>What a caller's event array may hold before the call.\<close>

definition stale_event :: handover_event_t where
  "stale_event =
     \<lparr>ev_ue_id = ''old'', source_satellite = ''sat-X'', target_satellite = ''sat-Y'',
      trigger_time = 1, completion_time = 2, result = SYNC_SUCCESS, error_message = []\<rparr>"

text \<open>Two registrations of \<open>ue-1\<close> followed by one unregistration.\<close>

definition three_calls :: "ue_call list" where
  "three_calls = [Register (Some ue1_context), Register (Some ue1_context),
                  Unregister (Some ''ue-1'')]"

text \<open>A subscriber identifier of 64 characters, one more than a node's buffer holds.\<close>

definition long_ue_id :: string where
  "long_ue_id = replicate 64 (CHR ''a'')"

text \<open>
  A table with one subscriber, whose identifier has 63 characters and so fits a node's
  buffer exactly.
\<close>

definition neighbour_table :: routing_table where
  "neighbour_table =
     [\<lparr>ue_id = replicate 63 (CHR ''a''), gnb_ip = 10, gnb_port = 2152, last_update = 900\<rparr>]"

text \<open>A table with two subscribers, \<open>ue-B\<close> at the head.\<close>

definition two_entry_table :: routing_table where
  "two_entry_table =
     [\<lparr>ue_id = ''ue-B'', gnb_ip = 20, gnb_port = 2152, last_update = 900\<rparr>,
      \<lparr>ue_id = ''ue-A'', gnb_ip = 10, gnb_port = 2152, last_update = 800\<rparr>]"

section \<open>Properties of the bridge\<close>

text \<open>
  C4. Initialisation is idempotent: on an engine that is already initialised,
  \<open>sync_algorithm_init\<close> returns \<open>SYNC_SUCCESS\<close> and leaves the whole state, and so every
  counter of the status, as it was; and from any state two calls in a row both return
  \<open>SYNC_SUCCESS\<close>, the second changing nothing.
\<close>

theorem init_idempotent:
  "(g_initialized s \<longrightarrow> sync_algorithm_init now s = (SYNC_SUCCESS, s))
   \<and> fst (sync_algorithm_init t1 s) = SYNC_SUCCESS
   \<and> sync_algorithm_init t2 (snd (sync_algorithm_init t1 s))
       = (SYNC_SUCCESS, snd (sync_algorithm_init t1 s))"
  by (simp add: sync_algorithm_init_def)

theorem init_idempotent_witness:
  "g_initialized busy_engine
   \<and> sync_algorithm_init 2000 busy_engine = (SYNC_SUCCESS, busy_engine)
   \<and> total_ue_count (g_status (snd (sync_algorithm_init 2000 busy_engine))) = 2
   \<and> total_handover_count (g_status (snd (sync_algorithm_init 2000 busy_engine))) = 3
   \<and> fst (sync_algorithm_init 1000 bridge_start) = SYNC_SUCCESS
   \<and> fst (sync_algorithm_init 1001 (snd (sync_algorithm_init 1000 bridge_start))) = SYNC_SUCCESS"
  using init_idempotent [of busy_engine 2000 1000 1001]
        init_idempotent [of bridge_start 2000 1000 1001]
  by (simp add: busy_engine_def)

text \<open>
  C1 as stated fails. The engine keeps no record of who registered: on a freshly
  initialised engine, where nobody registered, a handover for \<open>ue-9\<close> returns
  \<open>SYNC_SUCCESS\<close>, not \<open>SYNC_ERROR_UE_NOT_FOUND\<close>, and both counters go from 0 to 1.
\<close>

theorem trigger_handover_unknown_ue_counterexample:
  "fst (sync_algorithm_trigger_handover (Some ''ue-9'') (Some ''sat-B'') 5 1001 fresh_engine)
     = SYNC_SUCCESS
   \<and> fst (sync_algorithm_trigger_handover (Some ''ue-9'') (Some ''sat-B'') 5 1001 fresh_engine)
     \<noteq> SYNC_ERROR_UE_NOT_FOUND
   \<and> total_handover_count (g_status fresh_engine) = 0
   \<and> successful_handover_count (g_status fresh_engine) = 0
   \<and> total_handover_count (g_status (snd
        (sync_algorithm_trigger_handover (Some ''ue-9'') (Some ''sat-B'') 5 1001 fresh_engine))) = 1
   \<and> successful_handover_count (g_status (snd
        (sync_algorithm_trigger_handover (Some ''ue-9'') (Some ''sat-B'') 5 1001 fresh_engine))) = 1"
  by (simp add: sync_algorithm_trigger_handover_def fresh_engine_def sync_algorithm_init_def
      bridge_start_def status_zero_def)

text \<open>
  C1, amended. On an initialised engine, for every non-null subscriber id and target
  satellite id, registered or not, \<open>sync_algorithm_trigger_handover\<close> returns
  \<open>SYNC_SUCCESS\<close> and adds one to \<open>total_handover_count\<close> and to
  \<open>successful_handover_count\<close> (64-bit, wrapping); the subscriber count and the
  initialised flag stay as they were.
\<close>

theorem trigger_handover_counts_any_ue:
  assumes "g_initialized s"
  shows "fst (sync_algorithm_trigger_handover (Some uid) (Some target_sat) t now s)
           = SYNC_SUCCESS
         \<and> total_handover_count (g_status (snd
              (sync_algorithm_trigger_handover (Some uid) (Some target_sat) t now s)))
           = total_handover_count (g_status s) + 1
         \<and> successful_handover_count (g_status (snd
              (sync_algorithm_trigger_handover (Some uid) (Some target_sat) t now s)))
           = successful_handover_count (g_status s) + 1
         \<and> total_ue_count (g_status (snd
              (sync_algorithm_trigger_handover (Some uid) (Some target_sat) t now s)))
           = total_ue_count (g_status s)
         \<and> g_initialized (snd
              (sync_algorithm_trigger_handover (Some uid) (Some target_sat) t now s))"
  using assms by (simp add: sync_algorithm_trigger_handover_def)

theorem trigger_handover_counts_any_ue_witness:
  "g_initialized busy_engine
   \<and> fst (sync_algorithm_trigger_handover (Some ''ue-9'') (Some ''sat-B'') 5 1006 busy_engine)
       = SYNC_SUCCESS
   \<and> total_handover_count (g_status (snd
        (sync_algorithm_trigger_handover (Some ''ue-9'') (Some ''sat-B'') 5 1006 busy_engine))) = 4
   \<and> successful_handover_count (g_status (snd
        (sync_algorithm_trigger_handover (Some ''ue-9'') (Some ''sat-B'') 5 1006 busy_engine))) = 4"
proof -
  have init: "g_initialized busy_engine"
    by (simp add: busy_engine_def)
  show ?thesis
    using init trigger_handover_counts_any_ue [OF init, of "''ue-9''" "''sat-B''" 5 1006]
    by (simp add: busy_engine_def)
qed

text \<open>
  C2 as stated fails in its last part. After initialising, registering \<open>ue-1\<close> on
  \<open>sat-A\<close> and triggering its handover to \<open>sat-B\<close>, a request for one recent event
  sets the caller's counter to 0: no event is handed back, where the claim expects one.
\<close>

theorem handover_scenario_events_counterexample:
  "fst (sync_algorithm_get_recent_handover_events [stale_event] 1 (Some 7) scenario_engine)
     = SYNC_SUCCESS
   \<and> fst (snd (snd
        (sync_algorithm_get_recent_handover_events [stale_event] 1 (Some 7) scenario_engine)))
     = Some 0
   \<and> returned_events
        (fst (snd
          (sync_algorithm_get_recent_handover_events [stale_event] 1 (Some 7) scenario_engine)))
        (fst (snd (snd
          (sync_algorithm_get_recent_handover_events [stale_event] 1 (Some 7) scenario_engine))))
     = []
   \<and> length (returned_events
        (fst (snd
          (sync_algorithm_get_recent_handover_events [stale_event] 1 (Some 7) scenario_engine)))
        (fst (snd (snd
          (sync_algorithm_get_recent_handover_events [stale_event] 1 (Some 7) scenario_engine)))))
     \<noteq> 1"
  by (simp add: sync_algorithm_get_recent_handover_events_def returned_events_def)

text \<open>
  C2, amended. From the state at process start, \<open>sync_algorithm_init\<close>, registering
  \<open>ue-1\<close> (current satellite \<open>sat-A\<close>) and triggering its handover to \<open>sat-B\<close> at
  any predicted time all return \<open>SYNC_SUCCESS\<close>; \<open>sync_algorithm_get_status\<close> then
  reports \<open>total_handover_count = 1\<close> and \<open>successful_handover_count = 1\<close> (and one
  subscriber); and \<open>sync_algorithm_get_recent_handover_events\<close> asked for one event
  returns \<open>SYNC_SUCCESS\<close> with a count of 0, that is, no event, leaving the caller's array
  and the engine untouched.
\<close>

theorem handover_scenario:
  "(let (r1, s1) = sync_algorithm_init t0 bridge_start;
        (r2, s2) = sync_algorithm_register_ue (Some ue1_context) s1;
        (r3, s3) = sync_algorithm_trigger_handover (Some ''ue-1'') (Some ''sat-B'') T t1 s2;
        (r4, status, s4) = sync_algorithm_get_status (Some buf) s3;
        (r5, events', count', s5) =
           sync_algorithm_get_recent_handover_events events 1 (Some c) s4
    in r1 = SYNC_SUCCESS \<and> r2 = SYNC_SUCCESS \<and> r3 = SYNC_SUCCESS \<and> r4 = SYNC_SUCCESS
       \<and> map_option total_handover_count status = Some 1
       \<and> map_option successful_handover_count status = Some 1
       \<and> map_option total_ue_count status = Some 1
       \<and> r5 = SYNC_SUCCESS \<and> count' = Some 0 \<and> returned_events events' count' = []
       \<and> events' = events \<and> s5 = s3)"
  by (simp add: sync_algorithm_init_def bridge_start_def status_zero_def
      sync_algorithm_register_ue_def sync_algorithm_trigger_handover_def
      sync_algorithm_get_status_def sync_algorithm_get_recent_handover_events_def
      returned_events_def)

theorem handover_scenario_witness:
  "(let (r1, s1) = sync_algorithm_init 1000 bridge_start;
        (r2, s2) = sync_algorithm_register_ue (Some ue1_context) s1;
        (r3, s3) = sync_algorithm_trigger_handover (Some ''ue-1'') (Some ''sat-B'') 100 1002 s2;
        (r4, status, s4) = sync_algorithm_get_status (Some status_zero) s3;
        (r5, events', count', s5) =
           sync_algorithm_get_recent_handover_events [] 1 (Some 7) s4
    in r1 = SYNC_SUCCESS \<and> r2 = SYNC_SUCCESS \<and> r3 = SYNC_SUCCESS \<and> r4 = SYNC_SUCCESS
       \<and> map_option total_handover_count status = Some 1
       \<and> map_option successful_handover_count status = Some 1
       \<and> map_option total_ue_count status = Some 1
       \<and> r5 = SYNC_SUCCESS \<and> count' = Some 0 \<and> returned_events events' count' = []
       \<and> events' = [] \<and> s5 = s3)"
  using handover_scenario [of 1000 100 1002 status_zero "[]" 7]
  by simp

text \<open>
  C5 as stated fails. The result type has no "not initialised" kind: on an engine that was
  never initialised, and on one that was cleaned up, the calls return
  \<open>SYNC_ERROR_INVALID_PARAM\<close> (code -1).
\<close>

theorem uninitialized_result_counterexample:
  "\<not> g_initialized bridge_start
   \<and> fst (sync_algorithm_register_ue (Some ue1_context) bridge_start)
       = SYNC_ERROR_INVALID_PARAM
   \<and> sync_result_code (fst (sync_algorithm_register_ue (Some ue1_context) bridge_start)) = -1
   \<and> fst (sync_algorithm_trigger_handover (Some ''ue-1'') (Some ''sat-B'') 100 1007
            (sync_algorithm_cleanup busy_engine))
       = SYNC_ERROR_INVALID_PARAM"
  by (simp add: sync_algorithm_register_ue_def sync_algorithm_trigger_handover_def
      sync_algorithm_cleanup_def bridge_start_def)

text \<open>
  C5, amended. \<open>sync_algorithm_cleanup\<close> leaves the engine uninitialised, and on an
  uninitialised engine each operational call (register, unregister, position update,
  trigger handover, get status, start and stop of the periodic update) returns
  \<open>SYNC_ERROR_INVALID_PARAM\<close>, whatever its arguments, and changes neither the engine
  nor the caller's status buffer.
\<close>

theorem uninitialized_invalid_param:
  assumes "\<not> g_initialized s"
  shows "\<not> g_initialized (sync_algorithm_cleanup s')
         \<and> sync_algorithm_register_ue ue_context s = (SYNC_ERROR_INVALID_PARAM, s)
         \<and> sync_algorithm_unregister_ue uid s = (SYNC_ERROR_INVALID_PARAM, s)
         \<and> sync_algorithm_update_ue_position uid lat lon alt s
             = (SYNC_ERROR_INVALID_PARAM, s)
         \<and> sync_algorithm_trigger_handover uid target_sat t now s
             = (SYNC_ERROR_INVALID_PARAM, s)
         \<and> sync_algorithm_get_status status s = (SYNC_ERROR_INVALID_PARAM, status, s)
         \<and> sync_algorithm_start_periodic_update s = (SYNC_ERROR_INVALID_PARAM, s)
         \<and> sync_algorithm_stop_periodic_update s = (SYNC_ERROR_INVALID_PARAM, s)"
  using assms
  by (simp add: sync_algorithm_cleanup_def sync_algorithm_register_ue_def
      sync_algorithm_unregister_ue_def sync_algorithm_update_ue_position_def
      sync_algorithm_trigger_handover_def sync_algorithm_get_status_def
      sync_algorithm_start_periodic_update_def sync_algorithm_stop_periodic_update_def)

theorem uninitialized_invalid_param_witness:
  "\<not> g_initialized (sync_algorithm_cleanup busy_engine)
   \<and> sync_algorithm_register_ue (Some ue1_context) (sync_algorithm_cleanup busy_engine)
       = (SYNC_ERROR_INVALID_PARAM, sync_algorithm_cleanup busy_engine)
   \<and> sync_algorithm_unregister_ue (Some ''ue-1'') (sync_algorithm_cleanup busy_engine)
       = (SYNC_ERROR_INVALID_PARAM, sync_algorithm_cleanup busy_engine)
   \<and> sync_algorithm_update_ue_position (Some ''ue-1'') 25 121 0
         (sync_algorithm_cleanup busy_engine)
       = (SYNC_ERROR_INVALID_PARAM, sync_algorithm_cleanup busy_engine)
   \<and> sync_algorithm_trigger_handover (Some ''ue-1'') (Some ''sat-B'') 100 1007
         (sync_algorithm_cleanup busy_engine)
       = (SYNC_ERROR_INVALID_PARAM, sync_algorithm_cleanup busy_engine)
   \<and> sync_algorithm_get_status (Some status_zero) (sync_algorithm_cleanup busy_engine)
       = (SYNC_ERROR_INVALID_PARAM, Some status_zero, sync_algorithm_cleanup busy_engine)
   \<and> sync_algorithm_start_periodic_update (sync_algorithm_cleanup busy_engine)
       = (SYNC_ERROR_INVALID_PARAM, sync_algorithm_cleanup busy_engine)
   \<and> sync_algorithm_stop_periodic_update (sync_algorithm_cleanup busy_engine)
       = (SYNC_ERROR_INVALID_PARAM, sync_algorithm_cleanup busy_engine)"
proof -
  have off: "\<not> g_initialized (sync_algorithm_cleanup busy_engine)"
    by (simp add: sync_algorithm_cleanup_def)
  show ?thesis
    using off
      uninitialized_invalid_param [OF off, of busy_engine "Some ue1_context" "Some ''ue-1''"
        25 121 0 "Some ''sat-B''" 100 1007 "Some status_zero"]
    by simp
qed

text \<open>
  C6 as stated fails. \<open>sync_algorithm_set_parameters\<close> checks nothing: with a negative
  period, \<open>set_parameters(-1.0, 0.01)\<close>, it returns \<open>SYNC_SUCCESS\<close>, not
  \<open>SYNC_ERROR_INVALID_PARAM\<close>.
\<close>

theorem set_parameters_negative_counterexample:
  "fst (sync_algorithm_set_parameters (- 1) (1 / 100) fresh_engine) = SYNC_SUCCESS
   \<and> fst (sync_algorithm_set_parameters (- 1) (1 / 100) fresh_engine)
       \<noteq> SYNC_ERROR_INVALID_PARAM"
  by (simp add: sync_algorithm_set_parameters_def)

text \<open>
  C6, amended. \<open>sync_algorithm_set_parameters\<close> validates and stores nothing: for every
  pair of values, positive or not, it returns \<open>SYNC_SUCCESS\<close> and leaves the engine state
  unchanged, so that the status read afterwards is the status read before.
\<close>

theorem set_parameters_accepts_all:
  "sync_algorithm_set_parameters delta_t binary_search_precision s = (SYNC_SUCCESS, s)
   \<and> sync_algorithm_get_status status
        (snd (sync_algorithm_set_parameters delta_t binary_search_precision s))
       = sync_algorithm_get_status status s"
  by (simp add: sync_algorithm_set_parameters_def)

theorem set_parameters_accepts_all_witness:
  "sync_algorithm_set_parameters (- 1) (1 / 100) busy_engine = (SYNC_SUCCESS, busy_engine)
   \<and> sync_algorithm_set_parameters 5 (1 / 100) busy_engine = (SYNC_SUCCESS, busy_engine)
   \<and> sync_algorithm_get_status (Some status_zero)
        (snd (sync_algorithm_set_parameters 5 (1 / 100) busy_engine))
       = sync_algorithm_get_status (Some status_zero) busy_engine"
  using set_parameters_accepts_all [of "- 1" "1 / 100" busy_engine "Some status_zero"]
        set_parameters_accepts_all [of 5 "1 / 100" busy_engine "Some status_zero"]
  by simp

subsection \<open>The subscriber count\<close>

text \<open>Register and unregister calls never clear the initialised flag.\<close>

lemma ue_call_step_initialized:
  "g_initialized s \<Longrightarrow> g_initialized (snd (ue_call_step c s))"
  by (cases c)
     (simp_all add: sync_algorithm_register_ue_def sync_algorithm_unregister_ue_def)

lemma register_ue_count:
  assumes "ue_count s + 1 < 2 ^ 32"
  shows "ue_count (s\<lparr>g_status := (g_status s)\<lparr>total_ue_count := total_ue_count (g_status s) + 1\<rparr>\<rparr>)
           = ue_count s + 1"
proof -
  have "unat (total_ue_count (g_status s)) + unat (1 :: 32 word) < 2 ^ LENGTH(32)"
    using assms by (simp add: ue_count_def)
  then have "unat (total_ue_count (g_status s) + 1) = unat (total_ue_count (g_status s)) + unat (1 :: 32 word)"
    by (simp only: unat_add_lem)
  then show ?thesis by (simp add: ue_count_def)
qed

lemma unregister_ue_count:
  "g_initialized s \<Longrightarrow>
   ue_count (snd (sync_algorithm_unregister_ue (Some u) s)) = ue_count s - 1"
  by (auto simp add: sync_algorithm_unregister_ue_def ue_count_def unat_minus_one word_gt_0)

text \<open>
  The count follows the net of the successful calls as long as every unregister finds a
  positive count and the increments stay below \<open>2 ^ 32\<close>; stated for any starting
  count, for the induction over the calls.
\<close>

lemma ue_count_net_general:
  "g_initialized s \<Longrightarrow>
   \<forall>p \<in> set (prefixes (ue_call_trace cs s)). unregisters_ok p \<le> ue_count s + registers_ok p \<Longrightarrow>
   ue_count s + registers_ok (ue_call_trace cs s) < 2 ^ 32 \<Longrightarrow>
   ue_count (run_ue_calls cs s) + unregisters_ok (ue_call_trace cs s)
     = ue_count s + registers_ok (ue_call_trace cs s)"
proof (induction cs arbitrary: s)
  case Nil
  then show ?case by (simp add: registers_ok_def unregisters_ok_def)
next
  case (Cons c cs)
  let ?s' = "snd (ue_call_step c s)"
  let ?r = "fst (ue_call_step c s)"
  have init': "g_initialized ?s'"
    using Cons.prems(1) by (rule ue_call_step_initialized)
  have pre: "\<And>p. p \<in> set (prefixes (ue_call_trace cs ?s')) \<Longrightarrow>
               unregisters_ok ((c, ?r) # p) \<le> ue_count s + registers_ok ((c, ?r) # p)"
    using Cons.prems(2) by simp
  have bound: "ue_count s + registers_ok ((c, ?r) # ue_call_trace cs ?s') < 2 ^ 32"
    using Cons.prems(3) by simp
  show ?case
  proof (cases c)
    case (Register ctx)
    show ?thesis
    proof (cases ctx)
      case None
      with Register Cons.prems(1) have same: "?s' = s" "?r = SYNC_ERROR_INVALID_PARAM"
        by (simp_all add: sync_algorithm_register_ue_def)
      have "ue_count (run_ue_calls cs ?s') + unregisters_ok (ue_call_trace cs ?s')
              = ue_count ?s' + registers_ok (ue_call_trace cs ?s')"
        using init' pre bound Register same
        by (intro Cons.IH) (simp_all add: registers_ok_def unregisters_ok_def)
      then show ?thesis
        using Register same by (simp add: registers_ok_def unregisters_ok_def)
    next
      case (Some x)
      with Register Cons.prems(1) have r: "?r = SYNC_SUCCESS"
        and s': "?s' = s\<lparr>g_status := (g_status s)\<lparr>total_ue_count := total_ue_count (g_status s) + 1\<rparr>\<rparr>"
        by (simp_all add: sync_algorithm_register_ue_def)
      have "ue_count s + 1 < 2 ^ 32"
        using bound Register r by (simp add: registers_ok_def)
      then have cnt: "ue_count ?s' = ue_count s + 1"
        unfolding s' by (rule register_ue_count)
      have "ue_count (run_ue_calls cs ?s') + unregisters_ok (ue_call_trace cs ?s')
              = ue_count ?s' + registers_ok (ue_call_trace cs ?s')"
      proof (intro Cons.IH init' ballI)
        fix p assume "p \<in> set (prefixes (ue_call_trace cs ?s'))"
        from pre [OF this] show "unregisters_ok p \<le> ue_count ?s' + registers_ok p"
          using Register r cnt by (simp add: registers_ok_def unregisters_ok_def)
      next
        show "ue_count ?s' + registers_ok (ue_call_trace cs ?s') < 2 ^ 32"
          using bound Register r cnt by (simp add: registers_ok_def)
      qed
      then show ?thesis
        using Register r cnt by (simp add: registers_ok_def unregisters_ok_def)
    qed
  next
    case (Unregister uid)
    show ?thesis
    proof (cases uid)
      case None
      with Unregister Cons.prems(1) have same: "?s' = s" "?r = SYNC_ERROR_INVALID_PARAM"
        by (simp_all add: sync_algorithm_unregister_ue_def)
      have "ue_count (run_ue_calls cs ?s') + unregisters_ok (ue_call_trace cs ?s')
              = ue_count ?s' + registers_ok (ue_call_trace cs ?s')"
        using init' pre bound Unregister same
        by (intro Cons.IH) (simp_all add: registers_ok_def unregisters_ok_def)
      then show ?thesis
        using Unregister same by (simp add: registers_ok_def unregisters_ok_def)
    next
      case (Some u)
      with Unregister Cons.prems(1) have r: "?r = SYNC_SUCCESS"
        by (simp add: sync_algorithm_unregister_ue_def)
      have cnt: "ue_count ?s' = ue_count s - 1"
        using Unregister Some Cons.prems(1) by (simp add: unregister_ue_count)
      have "[] \<in> set (prefixes (ue_call_trace cs ?s'))"
        by simp
      from pre [OF this] have pos: "1 \<le> ue_count s"
        using Unregister r by (simp add: registers_ok_def unregisters_ok_def)
      have "ue_count (run_ue_calls cs ?s') + unregisters_ok (ue_call_trace cs ?s')
              = ue_count ?s' + registers_ok (ue_call_trace cs ?s')"
      proof (intro Cons.IH init' ballI)
        fix p assume "p \<in> set (prefixes (ue_call_trace cs ?s'))"
        from pre [OF this] show "unregisters_ok p \<le> ue_count ?s' + registers_ok p"
          using Unregister r cnt pos by (simp add: registers_ok_def unregisters_ok_def)
      next
        show "ue_count ?s' + registers_ok (ue_call_trace cs ?s') < 2 ^ 32"
          using bound Unregister r cnt pos by (simp add: registers_ok_def)
      qed
      then show ?thesis
        using Unregister r cnt pos by (simp add: registers_ok_def unregisters_ok_def)
    qed
  qed
qed


text \<open>
  C8 as stated fails in its last part. On a freshly initialised engine an unregister
  succeeds and, the count being zero, takes nothing off; after one more register the count
  is 1, while one successful register minus one successful unregister is 0.
\<close>

theorem ue_count_net_counterexample:
  "ue_call_trace [Unregister (Some ''ue-1''), Register (Some ue1_context)] fresh_engine
     = [(Unregister (Some ''ue-1''), SYNC_SUCCESS), (Register (Some ue1_context), SYNC_SUCCESS)]
   \<and> ue_count (run_ue_calls [Unregister (Some ''ue-1''), Register (Some ue1_context)]
        fresh_engine) = 1
   \<and> int (ue_count (run_ue_calls [Unregister (Some ''ue-1''), Register (Some ue1_context)]
        fresh_engine))
       \<noteq> int (registers_ok (ue_call_trace
               [Unregister (Some ''ue-1''), Register (Some ue1_context)] fresh_engine))
         - int (unregisters_ok (ue_call_trace
               [Unregister (Some ''ue-1''), Register (Some ue1_context)] fresh_engine))"
  by (simp add: fresh_engine_def sync_algorithm_init_def bridge_start_def status_zero_def
      sync_algorithm_register_ue_def sync_algorithm_unregister_ue_def ue_count_def
      registers_ok_def unregisters_ok_def)

text \<open>
  C8, amended. On an initialised engine the subscriber count is never negative (it is an
  unsigned 32-bit value); a successful unregister takes one off a positive count and
  leaves a zero count at zero; and starting from a count of zero, the count after a
  sequence of register and unregister calls equals the number of successful registers
  minus the number of successful unregisters provided that no unregister met a count of
  zero (every prefix of the sequence has at least as many successful registers as
  successful unregisters) and that fewer than \<open>2 ^ 32\<close> registers succeeded.
\<close>

theorem ue_count_floored_net:
  assumes "g_initialized s"
  shows "0 \<le> uint (total_ue_count (g_status (run_ue_calls cs s)))
         \<and> fst (sync_algorithm_unregister_ue (Some u) s) = SYNC_SUCCESS
         \<and> ue_count (snd (sync_algorithm_unregister_ue (Some u) s)) = ue_count s - 1
         \<and> (ue_count s = 0
              \<and> (\<forall>p \<in> set (prefixes (ue_call_trace cs s)). unregisters_ok p \<le> registers_ok p)
              \<and> registers_ok (ue_call_trace cs s) < 2 ^ 32
            \<longrightarrow> int (ue_count (run_ue_calls cs s))
                  = int (registers_ok (ue_call_trace cs s))
                    - int (unregisters_ok (ue_call_trace cs s)))"
proof (intro conjI impI)
  show "0 \<le> uint (total_ue_count (g_status (run_ue_calls cs s)))"
    by simp
  show "fst (sync_algorithm_unregister_ue (Some u) s) = SYNC_SUCCESS"
    using assms by (simp add: sync_algorithm_unregister_ue_def)
  show "ue_count (snd (sync_algorithm_unregister_ue (Some u) s)) = ue_count s - 1"
    using assms by (rule unregister_ue_count)
next
  assume h: "ue_count s = 0
     \<and> (\<forall>p \<in> set (prefixes (ue_call_trace cs s)). unregisters_ok p \<le> registers_ok p)
     \<and> registers_ok (ue_call_trace cs s) < 2 ^ 32"
  have "ue_count (run_ue_calls cs s) + unregisters_ok (ue_call_trace cs s)
          = ue_count s + registers_ok (ue_call_trace cs s)"
    using assms h by (intro ue_count_net_general) simp_all
  with h show "int (ue_count (run_ue_calls cs s))
      = int (registers_ok (ue_call_trace cs s)) - int (unregisters_ok (ue_call_trace cs s))"
    by simp
qed

lemma three_calls_trace:
  "ue_call_trace three_calls fresh_engine
     = [(Register (Some ue1_context), SYNC_SUCCESS), (Register (Some ue1_context), SYNC_SUCCESS),
        (Unregister (Some ''ue-1''), SYNC_SUCCESS)]"
  by (simp add: three_calls_def fresh_engine_def sync_algorithm_init_def bridge_start_def
      status_zero_def sync_algorithm_register_ue_def sync_algorithm_unregister_ue_def)

theorem ue_count_floored_net_witness:
  "g_initialized fresh_engine
   \<and> ue_count fresh_engine = 0
   \<and> list_all (\<lambda>p. unregisters_ok p \<le> registers_ok p)
        (prefixes (ue_call_trace three_calls fresh_engine))
   \<and> registers_ok (ue_call_trace three_calls fresh_engine) = 2
   \<and> unregisters_ok (ue_call_trace three_calls fresh_engine) = 1
   \<and> ue_count (run_ue_calls three_calls fresh_engine) = 1
   \<and> ue_count (snd (sync_algorithm_unregister_ue (Some ''ue-1'') fresh_engine)) = 0"
proof -
  have init: "g_initialized fresh_engine"
    by (simp add: fresh_engine_def sync_algorithm_init_def bridge_start_def)
  have zero: "ue_count fresh_engine = 0"
    by (simp add: fresh_engine_def sync_algorithm_init_def bridge_start_def status_zero_def
        ue_count_def)
  have pre: "list_all (\<lambda>p. unregisters_ok p \<le> registers_ok p)
        (prefixes (ue_call_trace three_calls fresh_engine))"
    by (simp add: three_calls_trace registers_ok_def unregisters_ok_def)
  have regs: "registers_ok (ue_call_trace three_calls fresh_engine) = 2"
    and unregs: "unregisters_ok (ue_call_trace three_calls fresh_engine) = 1"
    by (simp_all add: three_calls_trace registers_ok_def unregisters_ok_def)
  show ?thesis
    using init zero pre regs unregs
      ue_count_floored_net [OF init, of three_calls "''ue-1''"]
    by (simp add: list_all_iff)
qed

text \<open>
  C10. After \<open>sync_algorithm_cleanup\<close> the next \<open>sync_algorithm_init\<close> returns
  \<open>SYNC_SUCCESS\<close> and starts from a zeroed status: the subscriber count, the two handover
  counters (and the active-handover count and average latency) are 0 and the running flag
  is false, whatever they were before the cleanup. The one field that is not zero is
  \<open>last_update_time\<close>, which holds the time of the call.
\<close>

theorem init_after_cleanup_resets:
  "sync_algorithm_init now (sync_algorithm_cleanup s)
     = (SYNC_SUCCESS,
        \<lparr>g_initialized = True, g_status = status_zero\<lparr>last_update_time := of_int now\<rparr>\<rparr>)
   \<and> total_ue_count (g_status (snd (sync_algorithm_init now (sync_algorithm_cleanup s)))) = 0
   \<and> total_handover_count (g_status (snd (sync_algorithm_init now (sync_algorithm_cleanup s)))) = 0
   \<and> successful_handover_count
         (g_status (snd (sync_algorithm_init now (sync_algorithm_cleanup s)))) = 0
   \<and> \<not> algorithm_running (g_status (snd (sync_algorithm_init now (sync_algorithm_cleanup s))))"
  by (simp add: sync_algorithm_init_def sync_algorithm_cleanup_def status_zero_def)

theorem init_after_cleanup_resets_witness:
  "total_ue_count (g_status busy_engine) = 2
   \<and> total_handover_count (g_status busy_engine) = 3
   \<and> total_ue_count
         (g_status (snd (sync_algorithm_init 2000 (sync_algorithm_cleanup busy_engine)))) = 0
   \<and> total_handover_count
         (g_status (snd (sync_algorithm_init 2000 (sync_algorithm_cleanup busy_engine)))) = 0
   \<and> successful_handover_count
         (g_status (snd (sync_algorithm_init 2000 (sync_algorithm_cleanup busy_engine)))) = 0
   \<and> \<not> algorithm_running
         (g_status (snd (sync_algorithm_init 2000 (sync_algorithm_cleanup busy_engine))))"
  using init_after_cleanup_resets [of 2000 busy_engine]
  by (simp add: busy_engine_def status_zero_def)

section \<open>Properties of the routing table\<close>

text \<open>
  The scan finds no node exactly when no stored identifier equals the argument; when it
  finds one, the stored identifiers stay as they are, and so does every node whose
  identifier differs from the argument.
\<close>

lemma update_matching_entry_None:
  "update_matching_entry uid ip port now tbl = None \<longleftrightarrow> uid \<notin> set (map ue_id tbl)"
  by (induction tbl) auto

lemma update_matching_entry_keys:
  "update_matching_entry uid ip port now tbl = Some tbl' \<Longrightarrow> map ue_id tbl' = map ue_id tbl"
  by (induction tbl arbitrary: tbl') (auto split: if_splits)

lemma update_matching_entry_frame:
  "update_matching_entry uid ip port now tbl = Some tbl' \<Longrightarrow>
   length tbl' = length tbl
   \<and> (\<forall>i < length tbl. ue_id (tbl ! i) \<noteq> uid \<longrightarrow> tbl' ! i = tbl ! i)"
proof (induction tbl arbitrary: tbl')
  case Nil
  then show ?case by simp
next
  case (Cons entry rest)
  show ?case
  proof (cases "ue_id entry = uid")
    case True
    with Cons.prems show ?thesis
      by (auto simp add: nth_Cons split: nat.splits)
  next
    case False
    with Cons.prems obtain rest' where r: "update_matching_entry uid ip port now rest = Some rest'"
      and t: "tbl' = entry # rest'"
      by auto
    from Cons.IH [OF r] show ?thesis
      unfolding t by (auto simp add: nth_Cons split: nat.splits)
  qed
qed

text \<open>
  The nodes already in the table: the call adds at most one node, at the head, and every
  node whose stored identifier differs from the argument is found again in the new table,
  at the same distance from the end, with its identifier, IP address, port and time of
  last update unchanged. This holds for every outcome of the call (null identifier, match
  found, node created, allocation failed) and for identifiers of any length.
\<close>

lemma update_routing_entry_frame:
  assumes "i < length tbl" and "Some (ue_id (tbl ! i)) \<noteq> ue_id_arg"
  shows "length tbl \<le> length (snd (update_routing_entry ue_id_arg ip port now malloc_ok tbl))
         \<and> length (snd (update_routing_entry ue_id_arg ip port now malloc_ok tbl))
             \<le> Suc (length tbl)
         \<and> snd (update_routing_entry ue_id_arg ip port now malloc_ok tbl)
             ! (length (snd (update_routing_entry ue_id_arg ip port now malloc_ok tbl))
                - length tbl + i)
           = tbl ! i"
proof (cases ue_id_arg)
  case None
  then show ?thesis by (simp add: update_routing_entry_def)
next
  case (Some uid)
  show ?thesis
  proof (cases "update_matching_entry uid ip port now tbl")
    case None
    with Some show ?thesis by (simp add: update_routing_entry_def)
  next
    case (Some tbl')
    from update_matching_entry_frame [OF this] assms \<open>ue_id_arg = Some uid\<close> Some
    show ?thesis by (simp add: update_routing_entry_def)
  qed
qed

lemma update_routing_entry_frame_example:
  "(1::nat) < length two_entry_table
   \<and> Some (ue_id (two_entry_table ! 1)) \<noteq> Some ''ue-B''
   \<and> snd (update_routing_entry (Some ''ue-B'') 30 2153 1000 True two_entry_table) ! 1
       = \<lparr>ue_id = ''ue-A'', gnb_ip = 10, gnb_port = 2152, last_update = 800\<rparr>
   \<and> Some (ue_id (two_entry_table ! 1)) \<noteq> Some ''ue-C''
   \<and> snd (update_routing_entry (Some ''ue-C'') 30 2153 1000 True two_entry_table) ! 2
       = \<lparr>ue_id = ''ue-A'', gnb_ip = 10, gnb_port = 2152, last_update = 800\<rparr>"
proof -
  have len: "(1::nat) < length two_entry_table"
    by (simp add: two_entry_table_def)
  have b: "Some (ue_id (two_entry_table ! 1)) \<noteq> Some ''ue-B''"
    and c: "Some (ue_id (two_entry_table ! 1)) \<noteq> Some ''ue-C''"
    by (simp_all add: two_entry_table_def)
  show ?thesis
    using len b c
      update_routing_entry_frame [OF len b, of 30 2153 1000 True]
      update_routing_entry_frame [OF len c, of 30 2153 1000 True]
    by (simp add: two_entry_table_def update_routing_entry_def)
qed

text \<open>
  C7 as stated fails. The test at the head of \<open>update_routing_entry\<close> is for a null
  pointer only: the empty identifier is accepted, the call returns \<open>SYNC_SUCCESS\<close> and a
  node with the empty identifier is added to the table.
\<close>

theorem update_routing_entry_empty_id_counterexample:
  "update_routing_entry (Some []) 10 2152 1000 True []
     = (SYNC_SUCCESS, [\<lparr>ue_id = [], gnb_ip = 10, gnb_port = 2152, last_update = 1000\<rparr>])
   \<and> fst (update_routing_entry (Some []) 10 2152 1000 True []) \<noteq> SYNC_ERROR_INVALID_PARAM
   \<and> snd (update_routing_entry (Some []) 10 2152 1000 True []) \<noteq> []"
  by (simp add: update_routing_entry_def)

text \<open>
  C7, amended. \<open>update_routing_entry\<close> returns \<open>SYNC_ERROR_INVALID_PARAM\<close> exactly when
  the subscriber identifier is absent (a null pointer), and in that case the routing table
  is left unchanged.
\<close>

theorem update_routing_entry_null_id:
  "(fst (update_routing_entry ue_id_arg ip port now malloc_ok tbl) = SYNC_ERROR_INVALID_PARAM
      \<longleftrightarrow> ue_id_arg = None)
   \<and> update_routing_entry None ip port now malloc_ok tbl = (SYNC_ERROR_INVALID_PARAM, tbl)"
  by (simp add: update_routing_entry_def split: option.splits)

theorem update_routing_entry_null_id_witness:
  "update_routing_entry None 30 2153 1000 True two_entry_table
     = (SYNC_ERROR_INVALID_PARAM, two_entry_table)
   \<and> fst (update_routing_entry (Some []) 30 2153 1000 True two_entry_table)
       \<noteq> SYNC_ERROR_INVALID_PARAM"
  using update_routing_entry_null_id [of None 30 2153 1000 True two_entry_table]
        update_routing_entry_null_id [of "Some []" 30 2153 1000 True two_entry_table]
  by simp

text \<open>What the 64-character identifier becomes in a node's buffer.\<close>

lemma take_63_long_ue_id: "take 63 long_ue_id = replicate 63 (CHR ''a'')"
  by (simp add: long_ue_id_def)

lemma long_ue_id_neq: "replicate 63 (CHR ''a'') \<noteq> long_ue_id"
proof
  assume "replicate 63 (CHR ''a'') = long_ue_id"
  then have "length (replicate 63 (CHR ''a'')) = length long_ue_id" by (rule arg_cong)
  then show False by (simp add: long_ue_id_def)
qed

text \<open>
  C3, the uniqueness invariant, is broken for an identifier of 64 characters or more. The
  scan compares the stored identifiers with the whole argument, the new node stores the
  first 63 characters only. So the second call with the same 64-character identifier finds
  no match and adds a second node: both calls return \<open>SYNC_SUCCESS\<close> and the table holds
  two nodes with the same stored identifier.
\<close>

theorem update_routing_entry_long_id_duplicates:
  "fst (update_routing_entry (Some long_ue_id) 10 2152 1000 True []) = SYNC_SUCCESS
   \<and> fst (update_routing_entry (Some long_ue_id) 10 2152 1001 True
         (snd (update_routing_entry (Some long_ue_id) 10 2152 1000 True []))) = SYNC_SUCCESS
   \<and> map ue_id (snd (update_routing_entry (Some long_ue_id) 10 2152 1001 True
         (snd (update_routing_entry (Some long_ue_id) 10 2152 1000 True []))))
       = [replicate 63 (CHR ''a''), replicate 63 (CHR ''a'')]
   \<and> \<not> distinct (map ue_id (snd (update_routing_entry (Some long_ue_id) 10 2152 1001 True
         (snd (update_routing_entry (Some long_ue_id) 10 2152 1000 True [])))))"
  by (simp add: update_routing_entry_def take_63_long_ue_id long_ue_id_neq)

text \<open>
  What a call with a non-null identifier does, exactly: when some node is stored under the
  identifier, the first such node gets the new endpoint and time and nothing else changes;
  otherwise a node stored under the first 63 characters of the identifier is pushed at the
  head, or, when the allocation fails, the table stays as it is.
\<close>

lemma update_matching_entry_exact:
  "update_matching_entry uid ip port now tbl =
     (if uid \<in> set (map ue_id tbl) then Some (first_match_updated uid ip port now tbl)
      else None)"
  by (induction tbl) (auto simp add: first_match_updated_def)

lemma update_routing_entry_exact:
  "update_routing_entry (Some uid) ip port now malloc_ok tbl =
     (if uid \<in> set (map ue_id tbl)
      then (SYNC_SUCCESS, first_match_updated uid ip port now tbl)
      else if malloc_ok
      then (SYNC_SUCCESS,
            \<lparr>ue_id = take 63 uid, gnb_ip = ip, gnb_port = port, last_update = now\<rparr> # tbl)
      else (SYNC_ERROR_MEMORY_ALLOCATION, tbl))"
  by (simp add: update_routing_entry_def update_matching_entry_exact)

text \<open>
  For an identifier of at most 63 characters the node created is stored under the
  identifier itself, so the only node created or overwritten is the one of that identifier.
\<close>

lemma update_routing_entry_short_id:
  assumes "length uid \<le> 63"
  shows "update_routing_entry (Some uid) ip port now malloc_ok tbl =
     (if uid \<in> set (map ue_id tbl)
      then (SYNC_SUCCESS, first_match_updated uid ip port now tbl)
      else if malloc_ok
      then (SYNC_SUCCESS,
            \<lparr>ue_id = uid, gnb_ip = ip, gnb_port = port, last_update = now\<rparr> # tbl)
      else (SYNC_ERROR_MEMORY_ALLOCATION, tbl))"
  using assms by (simp add: update_routing_entry_exact)

text \<open>
  C9, the frame property of \<open>update_routing_entry\<close>, is broken in its clause "only the
  entry for id is created or overwritten" for an identifier of 64 characters or more. The
  table holds one subscriber whose identifier is 63 times \<open>a\<close>. A call with the identifier
  64 times \<open>a\<close> finds no match (the scan compares with the whole argument) and creates a
  node stored under the first 63 characters: the node created is not stored under the
  identifier of the call but under that of the other subscriber. A later call for the
  63-character subscriber then matches this new head node and overwrites the endpoint
  written for the 64-character one, while its own node keeps the old endpoint.
\<close>

theorem update_routing_entry_long_id_shadows:
  "update_routing_entry (Some long_ue_id) 30 2153 1000 True neighbour_table
     = (SYNC_SUCCESS,
        [\<lparr>ue_id = replicate 63 (CHR ''a''), gnb_ip = 30, gnb_port = 2153, last_update = 1000\<rparr>,
         \<lparr>ue_id = replicate 63 (CHR ''a''), gnb_ip = 10, gnb_port = 2152, last_update = 900\<rparr>])
   \<and> ue_id (hd (snd (update_routing_entry (Some long_ue_id) 30 2153 1000 True neighbour_table)))
       \<noteq> long_ue_id
   \<and> ue_id (hd (snd (update_routing_entry (Some long_ue_id) 30 2153 1000 True neighbour_table)))
       = ue_id (hd neighbour_table)
   \<and> update_routing_entry (Some (replicate 63 (CHR ''a''))) 40 2154 1001 True
        (snd (update_routing_entry (Some long_ue_id) 30 2153 1000 True neighbour_table))
     = (SYNC_SUCCESS,
        [\<lparr>ue_id = replicate 63 (CHR ''a''), gnb_ip = 40, gnb_port = 2154, last_update = 1001\<rparr>,
         \<lparr>ue_id = replicate 63 (CHR ''a''), gnb_ip = 10, gnb_port = 2152, last_update = 900\<rparr>])"
  by (simp add: update_routing_entry_def neighbour_table_def take_63_long_ue_id long_ue_id_neq)

text \<open>
  For identifiers that fit the buffer (at most 63 characters) the invariant is kept by
  every call.
\<close>

lemma update_routing_entry_distinct:
  assumes "distinct (map ue_id tbl)" and "fits_buffer ue_id_arg"
  shows "distinct (map ue_id (snd (update_routing_entry ue_id_arg ip port now malloc_ok tbl)))"
proof (cases ue_id_arg)
  case None
  with assms show ?thesis by (simp add: update_routing_entry_def)
next
  case (Some uid)
  with assms have short: "take 63 uid = uid" by (simp add: fits_buffer_def)
  show ?thesis
  proof (cases "update_matching_entry uid ip port now tbl")
    case None
    then have "uid \<notin> set (map ue_id tbl)"
      by (simp add: update_matching_entry_None)
    with None Some assms short show ?thesis
      by (simp add: update_routing_entry_def)
  next
    case (Some tbl')
    from update_matching_entry_keys [OF this] assms \<open>ue_id_arg = Some uid\<close> Some
    show ?thesis by (simp add: update_routing_entry_def)
  qed
qed

text \<open>So a table built from the empty table by such calls never holds a duplicate.\<close>

lemma run_upserts_distinct:
  "distinct (map ue_id tbl) \<Longrightarrow> list_all (\<lambda>call. fits_buffer (fst call)) calls \<Longrightarrow>
   distinct (map ue_id (run_upserts calls tbl))"
proof (induction calls arbitrary: tbl)
  case Nil
  then show ?case by simp
next
  case (Cons call calls)
  obtain ue_id_arg ip port now malloc_ok where call: "call = (ue_id_arg, ip, port, now, malloc_ok)"
    by (cases call)
  from Cons.prems call have "fits_buffer ue_id_arg" and rest: "list_all (\<lambda>call. fits_buffer (fst call)) calls"
    by simp_all
  with Cons.prems(1)
  have "distinct (map ue_id (snd (update_routing_entry ue_id_arg ip port now malloc_ok tbl)))"
    by (intro update_routing_entry_distinct)
  from Cons.IH [OF this rest] show ?case
    by (simp add: call)
qed

end
